theory Spec2Isabelle
  imports Main
begin

section \<open>Data model\<close>

text \<open>
  The serializers of \<^verbatim>\<open>Apps/users/serializers.py\<close> read three relations of a user
  object: the flag \<^verbatim>\<open>is_superuser\<close>, the direct grants \<^verbatim>\<open>user_permissions\<close> (rows
  with a \<^verbatim>\<open>codename\<close>) and the role assignments \<^verbatim>\<open>user_roles\<close> (rows with an
  \<^verbatim>\<open>is_active\<close> flag and a \<^verbatim>\<open>role\<close>, whose \<^verbatim>\<open>permissions\<close> are rows with a
  \<^verbatim>\<open>code\<close>). A related manager is modelled by the list of its rows, in query order.
  \<^verbatim>\<open>username\<close> and \<^verbatim>\<open>password\<close> are the identity columns the store's credential
  routines act on; \<^verbatim>\<open>password\<close> holds the stored (hashed) credential.
\<close>

record auth_permission =
  codename :: string

record role_permission =
  code :: string

record role =
  permissions :: "role_permission list"

record user_role =
  role :: role
  is_active :: bool

record user =
  username :: string
  password :: string
  is_superuser :: bool
  user_permissions :: "auth_permission list"
  user_roles :: "user_role list"

text \<open>
  Attribute values of a payload: strings (the character fields), booleans (the flags)
  and a reference to a user object (what \<^verbatim>\<open>create\<close> stamps as \<^verbatim>\<open>created_by\<close>).
  An attribute set is a Python dict from field names to values.
\<close>

datatype val = Str string | Bool bool | Obj user

type_synonym attrs = "string \<rightharpoonup> val"

text \<open>
  What the code can raise. A \<^verbatim>\<open>ValidationError\<close> carries the detail it was built
  from: a bare message, or a dict from field names to details. \<^verbatim>\<open>KeyError\<close> is what
  \<^verbatim>\<open>d[k]\<close> and \<^verbatim>\<open>d.pop(k)\<close> raise on a missing key.
\<close>

datatype detail = Message string | Fields "(string \<times> detail) list"

datatype error = ValidationError detail | KeyError string | StoreError string

text \<open>
  The collaborators the serializers call and this file does not define: the manager's
  \<^verbatim>\<open>create_user\<close>, the user object's \<^verbatim>\<open>set_password\<close> and \<^verbatim>\<open>check_password\<close>, and
  the generic \<^verbatim>\<open>ModelSerializer.update\<close> reached through \<^verbatim>\<open>super()\<close>. They are
  parameters of the model. The two that write to the database may raise; what they raise
  (\<open>StoreError\<close>) passes through the serializer unchanged.
\<close>

record identity_store =
  create_user :: "attrs \<Rightarrow> error + user"
  set_password :: "user \<Rightarrow> val \<Rightarrow> user"
  check_password :: "user \<Rightarrow> val \<Rightarrow> bool"
  super_update :: "user \<Rightarrow> attrs \<Rightarrow> error + user"

section \<open>UserSerializer\<close>

subsection \<open>get_permissions\<close>

text \<open>
  A Python set of strings is kept as a duplicate-free list; the order in which
  \<^verbatim>\<open>list(s)\<close> enumerates it is not fixed by Python, so the theorems below speak
  about the elements and about the absence of duplicates only.
  \<^verbatim>\<open>set(xs)\<close> is \<open>py_set\<close>, \<^verbatim>\<open>s.update(xs)\<close> is \<open>set_update\<close>.
\<close>

definition py_set :: "'a list \<Rightarrow> 'a list" where
  "py_set xs = remdups xs"

fun set_update :: "'a list \<Rightarrow> 'a list \<Rightarrow> 'a list" where
  "set_update s [] = s"
| "set_update s (x # xs) = set_update (if x \<in> set s then s else s @ [x]) xs"

text \<open>
  The body of the loop \<^verbatim>\<open>for user_role in obj.user_roles.filter(is_active=True)\<close>:
  each assignment adds the codes of its role's permissions to the set.
\<close>

fun role_loop :: "user_role list \<Rightarrow> string list \<Rightarrow> string list" where
  "role_loop [] user_perms = user_perms"
| "role_loop (ur # urs) user_perms =
     role_loop urs (set_update user_perms (map code (permissions (role ur))))"

definition get_permissions :: "user \<Rightarrow> string list" where
  "get_permissions obj =
     (if is_superuser obj then [''*'']
      else role_loop (filter is_active (user_roles obj))
             (py_set (map codename (user_permissions obj))))"

subsection \<open>validate\<close>

definition UserSerializer_validate :: "attrs \<Rightarrow> error + attrs" where
  "UserSerializer_validate attrs =
     (if ''password'' \<in> dom attrs \<and> ''password2'' \<in> dom attrs then
        (if attrs ''password'' \<noteq> attrs ''password2''
         then Inl (ValidationError
                (Fields [(''password'', Message ''Password fields didn't match.'')]))
         else Inr attrs)
      else Inr attrs)"

subsection \<open>create\<close>

text \<open>
  \<^verbatim>\<open>validated_data.pop('password2')\<close> has no default, so it raises \<^verbatim>\<open>KeyError\<close> when
  the key is missing. \<open>request_user\<close> is \<^verbatim>\<open>self.context['request'].user\<close>.
\<close>

definition create :: "identity_store \<Rightarrow> user \<Rightarrow> attrs \<Rightarrow> error + user" where
  "create store request_user validated_data =
     (if ''password2'' \<in> dom validated_data then
        (let validated_data1 = validated_data(''password2'' := None);
             validated_data2 = validated_data1(''created_by'' \<mapsto> Obj request_user)
         in create_user store validated_data2)
      else Inl (KeyError ''password2''))"

subsection \<open>update\<close>

text \<open>
  \<open>raw_password\<close> is the local \<^verbatim>\<open>password\<close> of the source (the name is taken by the
  user's column); \<^verbatim>\<open>pop\<close> removes the key from the dict that is passed on.
\<close>

definition update :: "identity_store \<Rightarrow> user \<Rightarrow> attrs \<Rightarrow> error + user" where
  "update store instance validated_data =
     (let (instance1, validated_data1) =
            (case validated_data ''password'' of
               Some raw_password \<Rightarrow>
                 (set_password store instance raw_password,
                  validated_data(''password'' := None))
             | None \<Rightarrow> (instance, validated_data));
          validated_data2 =
            (if ''password2'' \<in> dom validated_data1
             then validated_data1(''password2'' := None) else validated_data1)
      in super_update store instance1 validated_data2)"

section \<open>ChangePasswordSerializer\<close>

subsection \<open>validate_current_password\<close>

definition validate_current_password :: "identity_store \<Rightarrow> user \<Rightarrow> val \<Rightarrow> error + val" where
  "validate_current_password store request_user v =
     (if \<not> check_password store request_user v
      then Inl (ValidationError (Message ''Current password is incorrect.''))
      else Inr v)"

subsection \<open>validate\<close>

text \<open>
  \<^verbatim>\<open>attrs['new_password'] != attrs['confirm_password']\<close> evaluates the left lookup
  first; each lookup raises \<^verbatim>\<open>KeyError\<close> on a missing key.
\<close>

definition ChangePasswordSerializer_validate :: "attrs \<Rightarrow> error + attrs" where
  "ChangePasswordSerializer_validate attrs =
     (case attrs ''new_password'' of
        None \<Rightarrow> Inl (KeyError ''new_password'')
      | Some new_password \<Rightarrow>
          (case attrs ''confirm_password'' of
             None \<Rightarrow> Inl (KeyError ''confirm_password'')
           | Some confirm_password \<Rightarrow>
               if new_password \<noteq> confirm_password
               then Inl (ValidationError
                      (Fields [(''confirm_password'', Message ''New password fields didn't match.'')]))
               else Inr attrs))"

section \<open>Field declarations\<close>

text \<open>
  The class bodies declare serializer fields by keyword arguments. A declaration is kept
  as a record of the arguments the source gives (or the framework's default where it
  gives none). \<^verbatim>\<open>SerializerMethodField\<close> takes no \<^verbatim>\<open>read_only\<close> argument: its
  constructor sets \<^verbatim>\<open>read_only=True\<close> itself. \<open>ModelField\<close> stands for a field the
  framework builds from a column of the user model.
\<close>

datatype field_class =
  CharField | BooleanField | ListField | PrimaryKeyRelatedField | SerializerMethodField
  | ModelField

datatype validator = validate_password

record field_decl =
  field_name :: string
  field_class :: field_class
  read_only :: bool
  write_only :: bool
  required :: bool
  validators :: "validator list"

definition UserSerializer_declared_fields :: "field_decl list" where
  "UserSerializer_declared_fields =
     [\<lparr>field_name = ''password'', field_class = CharField, read_only = False,
        write_only = True, required = True, validators = [validate_password]\<rparr>,
      \<lparr>field_name = ''password2'', field_class = CharField, read_only = False,
        write_only = True, required = True, validators = []\<rparr>,
      \<lparr>field_name = ''two_factor_enabled'', field_class = BooleanField, read_only = True,
        write_only = False, required = False, validators = []\<rparr>,
      \<lparr>field_name = ''backup_codes'', field_class = ListField, read_only = True,
        write_only = False, required = False, validators = []\<rparr>,
      \<lparr>field_name = ''created_by'', field_class = PrimaryKeyRelatedField, read_only = True,
        write_only = False, required = False, validators = []\<rparr>,
      \<lparr>field_name = ''permissions'', field_class = SerializerMethodField, read_only = True,
        write_only = False, required = False, validators = []\<rparr>]"

definition Meta_fields :: "string list" where
  "Meta_fields =
     [''id'', ''email'', ''username'', ''password'', ''password2'', ''first_name'',
      ''last_name'', ''is_active'', ''is_staff'', ''is_superuser'', ''date_joined'',
      ''last_login'', ''two_factor_enabled'', ''backup_codes'', ''created_by'',
      ''permissions'']"

definition Meta_read_only_fields :: "string list" where
  "Meta_read_only_fields = [''id'', ''date_joined'', ''last_login'']"

definition ChangePasswordSerializer_declared_fields :: "field_decl list" where
  "ChangePasswordSerializer_declared_fields =
     [\<lparr>field_name = ''current_password'', field_class = CharField, read_only = False,
        write_only = False, required = True, validators = []\<rparr>,
      \<lparr>field_name = ''new_password'', field_class = CharField, read_only = False,
        write_only = False, required = True, validators = [validate_password]\<rparr>,
      \<lparr>field_name = ''confirm_password'', field_class = CharField, read_only = False,
        write_only = False, required = True, validators = []\<rparr>]"

section \<open>How the framework uses the declarations\<close>

text \<open>
  The declarations above have a meaning only through the serializer base classes, which
  this file inherits and does not define. Three of their rules are written out, since
  the properties of field names proved below depend on them.

  \<^item> \<^verbatim>\<open>ModelSerializer.get_fields\<close>: for every name of \<^verbatim>\<open>Meta.fields\<close>, in order, the
    declared field of that name if there is one; otherwise the field built from the
    model's column (\<open>build_field\<close>, a parameter: the user model is not part of this
    file), forced to \<^verbatim>\<open>read_only=True\<close> (and then not required) when the name is
    listed in \<^verbatim>\<open>Meta.read_only_fields\<close>.
  \<^item> \<^verbatim>\<open>Serializer.to_internal_value\<close>: for every field that is not read-only, the
    field validates its own input (\<open>run\<close>, a parameter standing for
    \<^verbatim>\<open>Field.run_validation\<close>: presence, type, length and the field's validators); a
    valid value is passed to the method \<^verbatim>\<open>validate_<field_name>\<close> when the class
    defines one; the value is stored under the field's name. A \<^verbatim>\<open>ValidationError\<close>
    raised on the way is recorded under the field's name, and the errors are raised
    together at the end. Any other exception propagates at once.
  \<^item> A field whose \<open>run\<close> skips it (absent and not required, or absent in a partial
    update) leaves no key.
\<close>

definition get_fields :: "(string \<Rightarrow> field_decl) \<Rightarrow> field_decl list" where
  "get_fields build_field =
     map (\<lambda>name.
            case find (\<lambda>f. field_name f = name) UserSerializer_declared_fields of
              Some f \<Rightarrow> f
            | None \<Rightarrow>
                if name \<in> set Meta_read_only_fields
                then (build_field name)\<lparr>field_name := name, read_only := True, required := False\<rparr>
                else (build_field name)\<lparr>field_name := name\<rparr>)
         Meta_fields"

datatype field_result = SkipField | Invalid detail | Valid val

fun to_internal_loop ::
  "(field_decl \<Rightarrow> val option \<Rightarrow> field_result) \<Rightarrow> (string \<Rightarrow> (val \<Rightarrow> error + val) option) \<Rightarrow>
   field_decl list \<Rightarrow> attrs \<Rightarrow> attrs \<Rightarrow> (string \<times> detail) list \<Rightarrow>
   error + (attrs \<times> (string \<times> detail) list)" where
  "to_internal_loop run validate_method [] data ret errors = Inr (ret, errors)"
| "to_internal_loop run validate_method (f # fs) data ret errors =
     (case run f (data (field_name f)) of
        SkipField \<Rightarrow> to_internal_loop run validate_method fs data ret errors
      | Invalid d \<Rightarrow>
          to_internal_loop run validate_method fs data ret (errors @ [(field_name f, d)])
      | Valid v \<Rightarrow>
          (case validate_method (field_name f) of
             None \<Rightarrow>
               to_internal_loop run validate_method fs data (ret(field_name f \<mapsto> v)) errors
           | Some m \<Rightarrow>
               (case m v of
                  Inr v' \<Rightarrow>
                    to_internal_loop run validate_method fs data (ret(field_name f \<mapsto> v'))
                      errors
                | Inl (ValidationError d) \<Rightarrow>
                    to_internal_loop run validate_method fs data ret
                      (errors @ [(field_name f, d)])
                | Inl e \<Rightarrow> Inl e)))"

definition to_internal_value ::
  "(field_decl \<Rightarrow> val option \<Rightarrow> field_result) \<Rightarrow> (string \<Rightarrow> (val \<Rightarrow> error + val) option) \<Rightarrow>
   field_decl list \<Rightarrow> attrs \<Rightarrow> error + attrs" where
  "to_internal_value run validate_method field_list data =
     (case to_internal_loop run validate_method (filter (\<lambda>f. \<not> read_only f) field_list) data
             Map.empty [] of
        Inl e \<Rightarrow> Inl e
      | Inr (ret, errors) \<Rightarrow>
          if errors \<noteq> [] then Inl (ValidationError (Fields errors)) else Inr ret)"

text \<open>
  \<^verbatim>\<open>UserSerializer\<close> defines no \<^verbatim>\<open>validate_<field_name>\<close> method;
  \<^verbatim>\<open>ChangePasswordSerializer\<close> defines one, for \<^verbatim>\<open>current_password\<close>.
\<close>

definition UserSerializer_validate_method :: "string \<Rightarrow> (val \<Rightarrow> error + val) option" where
  "UserSerializer_validate_method name = None"

definition ChangePasswordSerializer_validate_method ::
  "identity_store \<Rightarrow> user \<Rightarrow> string \<Rightarrow> (val \<Rightarrow> error + val) option" where
  "ChangePasswordSerializer_validate_method store request_user name =
     (if name = ''current_password''
      then Some (validate_current_password store request_user) else None)"

text \<open>The seven names the payload may show but never set.\<close>

definition protected_fields :: "string set" where
  "protected_fields =
     {''id'', ''date_joined'', ''last_login'', ''two_factor_enabled'', ''backup_codes'',
      ''created_by'', ''permissions''}"

section \<open>Example objects\<close>

text \<open>
  A user with the direct grant \<^verbatim>\<open>view_x\<close>, an active assignment of a role granting
  \<^verbatim>\<open>edit_y\<close> (and \<^verbatim>\<open>view_x\<close> again) and an inactive assignment of a role granting
  \<^verbatim>\<open>delete_z\<close>; the same user with the superuser flag set.
\<close>

definition example_user :: user where
  "example_user =
     \<lparr>username = ''alice'', password = ''hash:old'', is_superuser = False,
      user_permissions = [\<lparr>codename = ''view_x''\<rparr>],
      user_roles =
        [\<lparr>role = \<lparr>permissions = [\<lparr>code = ''edit_y''\<rparr>, \<lparr>code = ''view_x''\<rparr>]\<rparr>,
          is_active = True\<rparr>,
         \<lparr>role = \<lparr>permissions = [\<lparr>code = ''delete_z''\<rparr>]\<rparr>, is_active = False\<rparr>]\<rparr>"

definition example_superuser :: user where
  "example_superuser = example_user\<lparr>username := ''root'', is_superuser := True\<rparr>"

text \<open>
  A store for the examples: the credential routine prefixes \<^verbatim>\<open>hash:\<close>, the generic
  update assigns the \<^verbatim>\<open>username\<close> and \<^verbatim>\<open>password\<close> columns from the attributes it is
  given, and \<^verbatim>\<open>create_user\<close> builds a user from \<^verbatim>\<open>username\<close> and \<^verbatim>\<open>password\<close>.
\<close>

definition example_hash :: "val \<Rightarrow> string" where
  "example_hash v = (case v of Str s \<Rightarrow> ''hash:'' @ s | _ \<Rightarrow> ''hash:'')"

definition example_column :: "attrs \<Rightarrow> string \<Rightarrow> string \<Rightarrow> string" where
  "example_column attrs name old = (case attrs name of Some (Str s) \<Rightarrow> s | _ \<Rightarrow> old)"

definition example_store :: identity_store where
  "example_store =
     \<lparr>create_user = (\<lambda>attrs.
        case attrs ''created_by'' of
          Some (Obj creator) \<Rightarrow>
            Inr \<lparr>username = example_column attrs ''username'' [],
                 password = (case attrs ''password'' of Some v \<Rightarrow> example_hash v | None \<Rightarrow> []),
                 is_superuser = False, user_permissions = [], user_roles = []\<rparr>
        | _ \<Rightarrow> Inl (StoreError ''created_by'')),
      set_password = (\<lambda>u v. u\<lparr>password := example_hash v\<rparr>),
      check_password = (\<lambda>u v. password u = example_hash v),
      super_update = (\<lambda>u attrs.
        Inr (u\<lparr>username := example_column attrs ''username'' (username u),
               password := example_column attrs ''password'' (password u)\<rparr>))\<rparr>"

text \<open>
  A field validation for the examples: a supplied value is valid as it is, a missing
  value is an error for a required field and skipped otherwise. A model column for the
  examples is writable and optional.
\<close>

definition example_run :: "field_decl \<Rightarrow> val option \<Rightarrow> field_result" where
  "example_run f given =
     (case given of
        Some v \<Rightarrow> Valid v
      | None \<Rightarrow> if required f then Invalid (Message ''This field is required.'') else SkipField)"

definition example_build_field :: "string \<Rightarrow> field_decl" where
  "example_build_field name =
     \<lparr>field_name = name, field_class = ModelField, read_only = False, write_only = False,
      required = False, validators = []\<rparr>"

section \<open>Properties of get_permissions\<close>

lemma set_set_update: "set (set_update s xs) = set s \<union> set xs"
  by (induction xs arbitrary: s) auto

lemma distinct_set_update: "distinct s \<Longrightarrow> distinct (set_update s xs)"
  by (induction xs arbitrary: s) auto

lemma set_role_loop:
  "set (role_loop urs acc) =
     set acc \<union> (\<Union>ur \<in> set urs. set (map code (permissions (role ur))))"
  by (induction urs arbitrary: acc) (auto simp: set_set_update)

lemma distinct_role_loop: "distinct acc \<Longrightarrow> distinct (role_loop urs acc)"
  by (induction urs arbitrary: acc) (auto simp: distinct_set_update)

section \<open>Properties of the framework rules\<close>

lemma to_internal_loop_dom:
  "to_internal_loop run vm fs data ret errors = Inr (ret', errors') \<Longrightarrow>
   dom ret' \<subseteq> dom ret \<union> field_name ` set fs"
proof (induction fs arbitrary: ret errors)
  case Nil
  then show ?case by simp
next
  case (Cons f fs)
  show ?case
  proof (cases "run f (data (field_name f))")
    case SkipField
    with Cons.prems have "to_internal_loop run vm fs data ret errors = Inr (ret', errors')"
      by simp
    from Cons.IH [OF this] show ?thesis by auto
  next
    case (Invalid d)
    with Cons.prems have
      "to_internal_loop run vm fs data ret (errors @ [(field_name f, d)]) = Inr (ret', errors')"
      by simp
    from Cons.IH [OF this] show ?thesis by auto
  next
    case (Valid v)
    show ?thesis
    proof (cases "vm (field_name f)")
      case None
      with Valid Cons.prems have
        "to_internal_loop run vm fs data (ret(field_name f \<mapsto> v)) errors = Inr (ret', errors')"
        by simp
      from Cons.IH [OF this] show ?thesis by auto
    next
      case (Some m)
      show ?thesis
      proof (cases "m v")
        case (Inr v')
        with Valid Some Cons.prems have
          "to_internal_loop run vm fs data (ret(field_name f \<mapsto> v')) errors = Inr (ret', errors')"
          by simp
        from Cons.IH [OF this] show ?thesis by auto
      next
        case (Inl e)
        show ?thesis
        proof (cases e)
          case (ValidationError d)
          with Valid Some Inl Cons.prems have
            "to_internal_loop run vm fs data ret (errors @ [(field_name f, d)]) = Inr (ret', errors')"
            by simp
          from Cons.IH [OF this] show ?thesis by auto
        next
          case (KeyError k)
          with Valid Some Inl Cons.prems show ?thesis by simp
        next
          case (StoreError k)
          with Valid Some Inl Cons.prems show ?thesis by simp
        qed
      qed
    qed
  qed
qed

lemma to_internal_value_dom:
  assumes "to_internal_value run vm field_list data = Inr attrs"
  shows "dom attrs \<subseteq> field_name ` {f \<in> set field_list. \<not> read_only f}"
proof -
  from assms obtain errors where
    "to_internal_loop run vm (filter (\<lambda>f. \<not> read_only f) field_list) data Map.empty []
       = Inr (attrs, errors)"
    by (auto simp: to_internal_value_def split: sum.splits prod.splits if_splits)
  from to_internal_loop_dom [OF this] show ?thesis by auto
qed

lemma get_fields_protected:
  assumes "f \<in> set (get_fields build_field)" and "field_name f \<in> protected_fields"
  shows "read_only f"
  using assms
  by (auto simp: get_fields_def Meta_fields_def Meta_read_only_fields_def
        UserSerializer_declared_fields_def protected_fields_def)

lemma to_internal_loop_keeps_key:
  "to_internal_loop run vm fs data ret errors = Inr (ret', errors') \<Longrightarrow>
   ret k \<noteq> None \<Longrightarrow> ret' k \<noteq> None"
proof (induction fs arbitrary: ret errors)
  case Nil
  then show ?case by simp
next
  case (Cons f fs)
  from Cons.prems Cons.IH show ?case
    by (fastforce split: field_result.splits option.splits sum.splits error.splits if_splits)
qed

lemma to_internal_loop_keeps_errors:
  "to_internal_loop run vm fs data ret errors = Inr (ret', errors') \<Longrightarrow>
   length errors \<le> length errors'"
proof (induction fs arbitrary: ret errors)
  case Nil
  then show ?case by simp
next
  case (Cons f fs)
  from Cons.prems Cons.IH show ?case
    by (fastforce split: field_result.splits option.splits sum.splits error.splits)
qed

lemma to_internal_loop_present:
  "f \<in> set fs \<Longrightarrow> run f (data (field_name f)) \<noteq> SkipField \<Longrightarrow>
   to_internal_loop run vm fs data ret errors = Inr (ret', []) \<Longrightarrow>
   ret' (field_name f) \<noteq> None"
proof (induction fs arbitrary: ret errors)
  case Nil
  then show ?case by simp
next
  case (Cons g fs)
  show ?case
  proof (cases "f = g")
    case True
    with Cons.prems(2,3) show ?thesis
      by (auto split: field_result.splits option.splits sum.splits error.splits
            dest: to_internal_loop_keeps_errors
                  to_internal_loop_keeps_key [where k = "field_name g"])
  next
    case False
    with Cons.prems(1) have "f \<in> set fs" by simp
    with Cons.prems(2,3) Cons.IH show ?thesis
      by (auto split: field_result.splits option.splits sum.splits error.splits)
  qed
qed

lemma to_internal_value_present:
  assumes "to_internal_value run vm field_list data = Inr attrs"
      and "f \<in> set field_list" and "\<not> read_only f"
      and "run f (data (field_name f)) \<noteq> SkipField"
  shows "field_name f \<in> dom attrs"
proof -
  from assms(1) have
    "to_internal_loop run vm (filter (\<lambda>f. \<not> read_only f) field_list) data Map.empty []
       = Inr (attrs, [])"
    by (auto simp: to_internal_value_def split: sum.splits prod.splits if_splits)
  note loop = this
  from assms(2,3) have "f \<in> set (filter (\<lambda>f. \<not> read_only f) field_list)"
    by simp
  from to_internal_loop_present [OF this assms(4) loop] show ?thesis
    by auto
qed

text \<open>
  When the field validation never skips a required field (no partial update), the
  attributes the field pass returns hold the required key \<^verbatim>\<open>password2\<close>.
\<close>

lemma validated_data_has_password2:
  assumes "to_internal_value run UserSerializer_validate_method (get_fields build_field) data
             = Inr attrs"
      and "\<forall>f given. required f \<longrightarrow> run f given \<noteq> SkipField"
  shows "''password2'' \<in> dom attrs"
proof -
  let ?f = "\<lparr>field_name = ''password2'', field_class = CharField, read_only = False,
             write_only = True, required = True, validators = []\<rparr>"
  have "?f \<in> set (get_fields build_field)"
    by (simp add: get_fields_def Meta_fields_def UserSerializer_declared_fields_def)
  moreover have "\<not> read_only ?f" by simp
  moreover from assms(2) have "run ?f (data (field_name ?f)) \<noteq> SkipField" by simp
  ultimately have "field_name ?f \<in> dom attrs"
    by (rule to_internal_value_present [OF assms(1)])
  then show ?thesis by simp
qed

section \<open>Properties of the serializer methods\<close>

text \<open>
  Without the key \<^verbatim>\<open>password2\<close> the \<^verbatim>\<open>pop\<close> of \<^verbatim>\<open>create\<close> raises; this happens
  only for attributes on which the required field was skipped.
\<close>

lemma create_without_password2:
  "''password2'' \<notin> dom validated_data \<Longrightarrow>
   create store request_user validated_data = Inl (KeyError ''password2'')"
  by (simp add: create_def)

lemma UserSerializer_validate_Inr:
  "UserSerializer_validate attrs = Inr validated_data \<Longrightarrow> validated_data = attrs"
  by (auto simp: UserSerializer_validate_def split: if_splits)

section \<open>Claims\<close>

text \<open>
  C1. Whenever both \<^verbatim>\<open>password\<close> and \<^verbatim>\<open>password2\<close> are supplied and their values
  differ, \<^verbatim>\<open>UserSerializer.validate\<close> fails with a \<^verbatim>\<open>ValidationError\<close> whose detail
  names the field \<^verbatim>\<open>password\<close>; when the two values are equal, or at most one of the
  two keys is present, the check returns the attributes.
\<close>

theorem validate_password_mismatch:
  "(attrs ''password'' = Some p \<and> attrs ''password2'' = Some p2 \<and> p \<noteq> p2 \<longrightarrow>
      UserSerializer_validate attrs =
        Inl (ValidationError (Fields [(''password'', Message ''Password fields didn't match.'')])))
   \<and> (attrs ''password'' = attrs ''password2'' \<or> ''password'' \<notin> dom attrs
        \<or> ''password2'' \<notin> dom attrs \<longrightarrow>
      UserSerializer_validate attrs = Inr attrs)"
  by (auto simp: UserSerializer_validate_def)

theorem validate_password_mismatch_witness:
  "UserSerializer_validate [''password'' \<mapsto> Str ''s3cret!'', ''password2'' \<mapsto> Str ''s3cret?'']
     = Inl (ValidationError (Fields [(''password'', Message ''Password fields didn't match.'')]))
   \<and> UserSerializer_validate [''username'' \<mapsto> Str ''bob'', ''password'' \<mapsto> Str ''s3cret!'']
     = Inr [''username'' \<mapsto> Str ''bob'', ''password'' \<mapsto> Str ''s3cret!'']"
  using validate_password_mismatch
          [of "[''password'' \<mapsto> Str ''s3cret!'', ''password2'' \<mapsto> Str ''s3cret?'']"
              "Str ''s3cret!''" "Str ''s3cret?''"]
        validate_password_mismatch
          [of "[''username'' \<mapsto> Str ''bob'', ''password'' \<mapsto> Str ''s3cret!'']"]
  by simp

text \<open>
  C2. For a user who is not a superuser, the list \<^verbatim>\<open>get_permissions\<close> returns has no
  duplicates and its elements are exactly the codenames of the user's direct permissions
  together with the codes of the permissions of the roles of the user's active role
  assignments; inactive assignments contribute nothing.
\<close>

theorem get_permissions_non_superuser:
  assumes "\<not> is_superuser obj"
  shows "set (get_permissions obj) =
           codename ` set (user_permissions obj)
           \<union> (\<Union>ur \<in> set (filter is_active (user_roles obj)). code ` set (permissions (role ur)))
         \<and> distinct (get_permissions obj)"
  using assms
  by (simp add: get_permissions_def py_set_def set_role_loop distinct_role_loop)

theorem get_permissions_non_superuser_witness:
  "\<not> is_superuser example_user
   \<and> set (get_permissions example_user) = {''view_x'', ''edit_y''}
   \<and> distinct (get_permissions example_user)"
proof -
  have h: "\<not> is_superuser example_user"
    by (simp add: example_user_def)
  from get_permissions_non_superuser [OF h] h show ?thesis
    by (auto simp: example_user_def)
qed

text \<open>
  C3. For a user with the superuser flag set, \<^verbatim>\<open>get_permissions\<close> returns the one-element
  list \<^verbatim>\<open>['*']\<close>, whatever the direct permissions and role assignments are.
\<close>

theorem get_permissions_superuser:
  "is_superuser obj \<Longrightarrow> get_permissions obj = [''*'']"
  by (simp add: get_permissions_def)

theorem get_permissions_superuser_witness:
  "is_superuser example_superuser
   \<and> user_permissions example_superuser \<noteq> []
   \<and> get_permissions example_superuser = [''*'']"
proof -
  have h: "is_superuser example_superuser"
    by (simp add: example_superuser_def)
  from get_permissions_superuser [OF h] h show ?thesis
    by (simp add: example_superuser_def example_user_def)
qed

text \<open>
  C4. \<^verbatim>\<open>update\<close> hands the generic update the validated attributes without the keys
  \<^verbatim>\<open>password\<close> and \<^verbatim>\<open>password2\<close> and with every other key unchanged. When
  \<^verbatim>\<open>password\<close> is present, its value reaches the user only through
  \<^verbatim>\<open>set_password\<close>, applied to the instance before the generic update.
\<close>

theorem update_password_path:
  "(let rest = validated_data |` (- {''password'', ''password2''}) in
      update store instance validated_data =
        super_update store
          (case validated_data ''password'' of
             Some raw_password \<Rightarrow> set_password store instance raw_password
           | None \<Rightarrow> instance)
          rest
      \<and> ''password'' \<notin> dom rest \<and> ''password2'' \<notin> dom rest
      \<and> (\<forall>k. k \<noteq> ''password'' \<and> k \<noteq> ''password2'' \<longrightarrow> rest k = validated_data k))"
proof -
  have a: "(validated_data(''password'' := None))(''password2'' := None)
             = validated_data |` (- {''password'', ''password2''})"
    by (rule ext) (simp add: restrict_map_def)
  have b: "''password'' \<notin> dom validated_data \<Longrightarrow>
             validated_data(''password2'' := None)
               = validated_data |` (- {''password'', ''password2''})"
    by (rule ext) (auto simp: restrict_map_def)
  have c: "''password2'' \<notin> dom validated_data \<Longrightarrow>
             validated_data(''password'' := None)
               = validated_data |` (- {''password'', ''password2''})"
    by (rule ext) (auto simp: restrict_map_def)
  have d: "''password'' \<notin> dom validated_data \<Longrightarrow> ''password2'' \<notin> dom validated_data \<Longrightarrow>
             validated_data = validated_data |` (- {''password'', ''password2''})"
    by (rule ext) (auto simp: restrict_map_def)
  have 1: "update store instance validated_data =
          super_update store
            (case validated_data ''password'' of
               Some raw_password \<Rightarrow> set_password store instance raw_password
             | None \<Rightarrow> instance)
            (validated_data |` (- {''password'', ''password2''}))"
  proof (cases "validated_data ''password''")
    case None
    then have n: "''password'' \<notin> dom validated_data" by auto
    show ?thesis
    proof (cases "''password2'' \<in> dom validated_data")
      case True
      with None b [OF n] show ?thesis by (simp add: update_def)
    next
      case False
      with None d [OF n False] show ?thesis by (simp add: update_def)
    qed
  next
    case (Some raw_password)
    show ?thesis
    proof (cases "''password2'' \<in> dom validated_data")
      case True
      then have "''password2'' \<in> dom (validated_data(''password'' := None))" by auto
      with Some a show ?thesis by (simp add: update_def)
    next
      case False
      then have "''password2'' \<notin> dom (validated_data(''password'' := None))" by auto
      with Some c [OF False] show ?thesis by (simp add: update_def)
    qed
  qed
  have 2: "''password'' \<notin> dom (validated_data |` (- {''password'', ''password2''}))"
    by simp
  have 3: "''password2'' \<notin> dom (validated_data |` (- {''password'', ''password2''}))"
    by simp
  have 4: "\<forall>k. k \<noteq> ''password'' \<and> k \<noteq> ''password2'' \<longrightarrow>
             (validated_data |` (- {''password'', ''password2''})) k = validated_data k"
    by simp
  from 1 2 3 4 show ?thesis
    unfolding Let_def by blast
qed

theorem update_password_path_witness:
  "update example_store example_user
     [''username'' \<mapsto> Str ''alice2'', ''password'' \<mapsto> Str ''new-pw'', ''password2'' \<mapsto> Str ''other'']
   = Inr (example_user\<lparr>username := ''alice2'', password := ''hash:new-pw''\<rparr>)"
  using update_password_path
          [of "[''username'' \<mapsto> Str ''alice2'', ''password'' \<mapsto> Str ''new-pw'',
                ''password2'' \<mapsto> Str ''other'']"
              example_store example_user]
  by (simp add: Let_def example_store_def example_column_def example_hash_def example_user_def
        restrict_map_def)

text \<open>
  C5. On validated attributes (which hold the required key \<^verbatim>\<open>password2\<close>),
  \<^verbatim>\<open>create\<close> returns what the store's \<^verbatim>\<open>create_user\<close> returns for the attributes
  without \<^verbatim>\<open>password2\<close> and with \<^verbatim>\<open>created_by\<close> set to the requesting user; every
  other key is passed on unchanged.
\<close>

theorem create_delegates:
  assumes "''password2'' \<in> dom validated_data"
  shows "(let passed = (validated_data |` (- {''password2''}))(''created_by'' \<mapsto> Obj request_user) in
            create store request_user validated_data = create_user store passed
            \<and> ''password2'' \<notin> dom passed
            \<and> passed ''created_by'' = Some (Obj request_user)
            \<and> (\<forall>k. k \<noteq> ''password2'' \<and> k \<noteq> ''created_by'' \<longrightarrow> passed k = validated_data k))"
proof -
  let ?passed = "(validated_data |` (- {''password2''}))(''created_by'' \<mapsto> Obj request_user)"
  have popped: "validated_data(''password2'' := None) = validated_data |` (- {''password2''})"
    by (rule ext) (simp add: restrict_map_def)
  from assms have 1: "create store request_user validated_data = create_user store ?passed"
    by (simp add: create_def Let_def popped)
  have 2: "''password2'' \<notin> dom ?passed"
    by simp
  have 3: "?passed ''created_by'' = Some (Obj request_user)"
    by simp
  have 4: "\<forall>k. k \<noteq> ''password2'' \<and> k \<noteq> ''created_by'' \<longrightarrow> ?passed k = validated_data k"
    by simp
  from 1 2 3 4 show ?thesis
    unfolding Let_def by blast
qed

theorem create_delegates_witness:
  "''password2'' \<in> dom [''username'' \<mapsto> Str ''bob'', ''password'' \<mapsto> Str ''pw'', ''password2'' \<mapsto> Str ''pw'']
   \<and> create example_store example_superuser
        [''username'' \<mapsto> Str ''bob'', ''password'' \<mapsto> Str ''pw'', ''password2'' \<mapsto> Str ''pw'']
      = Inr \<lparr>username = ''bob'', password = ''hash:pw'', is_superuser = False,
             user_permissions = [], user_roles = []\<rparr>"
proof -
  have h: "''password2'' \<in> dom [''username'' \<mapsto> Str ''bob'', ''password'' \<mapsto> Str ''pw'',
                                 ''password2'' \<mapsto> Str ''pw'']"
    by simp
  from create_delegates [OF h, where store = example_store and request_user = example_superuser] h
  show ?thesis
    by (simp add: Let_def example_store_def example_column_def example_hash_def restrict_map_def)
qed

text \<open>
  C6. When \<^verbatim>\<open>password\<close> and \<^verbatim>\<open>password2\<close> are both supplied with the same value,
  \<^verbatim>\<open>UserSerializer.validate\<close> returns the attributes. The policy checker is a validator
  of the field \<^verbatim>\<open>password\<close>, run before \<^verbatim>\<open>validate\<close> is called; \<^verbatim>\<open>validate\<close> itself
  does not consult it, so the statement needs no assumption about it.
\<close>

theorem validate_accepts_equal:
  assumes "attrs ''password'' = Some p" and "attrs ''password2'' = Some p"
  shows "UserSerializer_validate attrs = Inr attrs"
  using assms by (simp add: UserSerializer_validate_def)

theorem validate_accepts_equal_witness:
  "UserSerializer_validate
     [''email'' \<mapsto> Str ''bob@example.org'', ''password'' \<mapsto> Str ''s3cret!'',
      ''password2'' \<mapsto> Str ''s3cret!'']
   = Inr [''email'' \<mapsto> Str ''bob@example.org'', ''password'' \<mapsto> Str ''s3cret!'',
          ''password2'' \<mapsto> Str ''s3cret!'']"
  using validate_accepts_equal
          [of "[''email'' \<mapsto> Str ''bob@example.org'', ''password'' \<mapsto> Str ''s3cret!'',
                ''password2'' \<mapsto> Str ''s3cret!'']" "Str ''s3cret!''"]
  by simp

text \<open>
  C7. \<^verbatim>\<open>validate_current_password\<close> raises a \<^verbatim>\<open>ValidationError\<close> with exactly the
  message \<^verbatim>\<open>Current password is incorrect.\<close> when \<^verbatim>\<open>check_password\<close> rejects the
  value for the requesting user, and returns the value unchanged when it accepts.
  Being the method \<^verbatim>\<open>validate_<field_name>\<close> of the field \<^verbatim>\<open>current_password\<close>, its
  error is reported under that field's name: whenever the field's own validation hands
  it a value that \<^verbatim>\<open>check_password\<close> rejects, the serializer's field pass fails and its
  error dict maps \<^verbatim>\<open>current_password\<close> to that message.
\<close>

theorem validate_current_password_checks:
  "(\<not> check_password store request_user v \<longrightarrow>
      validate_current_password store request_user v =
        Inl (ValidationError (Message ''Current password is incorrect.'')))
   \<and> (check_password store request_user v \<longrightarrow>
      validate_current_password store request_user v = Inr v)
   \<and> (\<forall>f. f \<in> set ChangePasswordSerializer_declared_fields
          \<and> field_name f = ''current_password''
          \<and> run f (data ''current_password'') = Valid v
          \<and> \<not> check_password store request_user v \<longrightarrow>
        (\<exists>errors.
           to_internal_value run (ChangePasswordSerializer_validate_method store request_user)
             ChangePasswordSerializer_declared_fields data
             = Inl (ValidationError (Fields errors))
           \<and> map_of errors ''current_password''
             = Some (Message ''Current password is incorrect.'')))"
proof (intro conjI allI impI)
  assume "\<not> check_password store request_user v"
  then show "validate_current_password store request_user v =
               Inl (ValidationError (Message ''Current password is incorrect.''))"
    by (simp add: validate_current_password_def)
next
  assume "check_password store request_user v"
  then show "validate_current_password store request_user v = Inr v"
    by (simp add: validate_current_password_def)
next
  fix f
  assume a: "f \<in> set ChangePasswordSerializer_declared_fields
             \<and> field_name f = ''current_password''
             \<and> run f (data ''current_password'') = Valid v
             \<and> \<not> check_password store request_user v"
  then have f: "f = \<lparr>field_name = ''current_password'', field_class = CharField,
                      read_only = False, write_only = False, required = True, validators = []\<rparr>"
    by (auto simp: ChangePasswordSerializer_declared_fields_def)
  from a f have r: "run \<lparr>field_name = ''current_password'', field_class = CharField,
                        read_only = False, write_only = False, required = True, validators = []\<rparr>
                      (data ''current_password'') = Valid v"
    by simp
  from a have m: "validate_current_password store request_user v =
                    Inl (ValidationError (Message ''Current password is incorrect.''))"
    by (simp add: validate_current_password_def)
  show "\<exists>errors.
          to_internal_value run (ChangePasswordSerializer_validate_method store request_user)
            ChangePasswordSerializer_declared_fields data
            = Inl (ValidationError (Fields errors))
          \<and> map_of errors ''current_password'' = Some (Message ''Current password is incorrect.'')"
    using r m
    by (auto simp: to_internal_value_def ChangePasswordSerializer_declared_fields_def
          ChangePasswordSerializer_validate_method_def
          split: field_result.splits)
qed

theorem validate_current_password_checks_witness:
  "validate_current_password example_store example_user (Str ''guess'')
     = Inl (ValidationError (Message ''Current password is incorrect.''))
   \<and> validate_current_password example_store example_user (Str ''old'') = Inr (Str ''old'')
   \<and> (\<exists>errors.
         to_internal_value example_run
           (ChangePasswordSerializer_validate_method example_store example_user)
           ChangePasswordSerializer_declared_fields
           [''current_password'' \<mapsto> Str ''guess'', ''new_password'' \<mapsto> Str ''n3w'',
            ''confirm_password'' \<mapsto> Str ''n3w'']
           = Inl (ValidationError (Fields errors))
         \<and> map_of errors ''current_password'' = Some (Message ''Current password is incorrect.''))"
proof -
  have bad: "\<not> check_password example_store example_user (Str ''guess'')"
    by (simp add: example_store_def example_user_def example_hash_def)
  have good: "check_password example_store example_user (Str ''old'')"
    by (simp add: example_store_def example_user_def example_hash_def)
  let ?f = "\<lparr>field_name = ''current_password'', field_class = CharField, read_only = False,
             write_only = False, required = True, validators = []\<rparr>"
  let ?data = "[''current_password'' \<mapsto> Str ''guess'', ''new_password'' \<mapsto> Str ''n3w'',
                ''confirm_password'' \<mapsto> Str ''n3w'']"
  have pre: "?f \<in> set ChangePasswordSerializer_declared_fields
             \<and> field_name ?f = ''current_password''
             \<and> example_run ?f (?data ''current_password'') = Valid (Str ''guess'')
             \<and> \<not> check_password example_store example_user (Str ''guess'')"
    using bad by (simp add: ChangePasswordSerializer_declared_fields_def example_run_def)
  note t1 = validate_current_password_checks
              [where store = example_store and request_user = example_user
                 and v = "Str ''guess''" and run = example_run and data = ?data]
  note t2 = validate_current_password_checks
              [where store = example_store and request_user = example_user
                 and v = "Str ''old''" and run = example_run and data = ?data]
  from t1 bad have c1: "validate_current_password example_store example_user (Str ''guess'')
                          = Inl (ValidationError (Message ''Current password is incorrect.''))"
    by blast
  from t2 good have c2: "validate_current_password example_store example_user (Str ''old'')
                           = Inr (Str ''old'')"
    by blast
  from t1 pre have c3:
    "\<exists>errors.
       to_internal_value example_run
         (ChangePasswordSerializer_validate_method example_store example_user)
         ChangePasswordSerializer_declared_fields ?data
         = Inl (ValidationError (Fields errors))
       \<and> map_of errors ''current_password'' = Some (Message ''Current password is incorrect.'')"
    by blast
  from c1 c2 c3 show ?thesis by blast
qed

text \<open>
  C8. On attributes that hold both \<^verbatim>\<open>new_password\<close> and \<^verbatim>\<open>confirm_password\<close>,
  \<^verbatim>\<open>ChangePasswordSerializer.validate\<close> fails with a \<^verbatim>\<open>ValidationError\<close> whose detail
  maps \<^verbatim>\<open>confirm_password\<close> to exactly \<^verbatim>\<open>New password fields didn't match.\<close> when
  the two values differ, and returns the attributes unchanged when they are equal.
\<close>

theorem change_password_mismatch:
  assumes "attrs ''new_password'' = Some n" and "attrs ''confirm_password'' = Some c"
  shows "(n \<noteq> c \<longrightarrow>
            ChangePasswordSerializer_validate attrs =
              Inl (ValidationError
                    (Fields [(''confirm_password'', Message ''New password fields didn't match.'')])))
         \<and> (n = c \<longrightarrow> ChangePasswordSerializer_validate attrs = Inr attrs)"
  using assms by (simp add: ChangePasswordSerializer_validate_def)

theorem change_password_mismatch_witness:
  "ChangePasswordSerializer_validate
     [''current_password'' \<mapsto> Str ''old'', ''new_password'' \<mapsto> Str ''n3w'',
      ''confirm_password'' \<mapsto> Str ''new'']
     = Inl (ValidationError
             (Fields [(''confirm_password'', Message ''New password fields didn't match.'')]))
   \<and> ChangePasswordSerializer_validate
       [''current_password'' \<mapsto> Str ''old'', ''new_password'' \<mapsto> Str ''n3w'',
        ''confirm_password'' \<mapsto> Str ''n3w'']
     = Inr [''current_password'' \<mapsto> Str ''old'', ''new_password'' \<mapsto> Str ''n3w'',
            ''confirm_password'' \<mapsto> Str ''n3w'']"
  using change_password_mismatch
          [of "[''current_password'' \<mapsto> Str ''old'', ''new_password'' \<mapsto> Str ''n3w'',
                ''confirm_password'' \<mapsto> Str ''new'']" "Str ''n3w''" "Str ''new''"]
        change_password_mismatch
          [of "[''current_password'' \<mapsto> Str ''old'', ''new_password'' \<mapsto> Str ''n3w'',
                ''confirm_password'' \<mapsto> Str ''n3w'']" "Str ''n3w''" "Str ''n3w''"]
  by simp

text \<open>
  C9. Whatever the payload holds, the attributes that the field pass of
  \<^verbatim>\<open>UserSerializer\<close> produces and \<^verbatim>\<open>validate\<close> passes on (the validated data that
  \<^verbatim>\<open>create\<close> and \<^verbatim>\<open>update\<close> receive) have none of the keys \<^verbatim>\<open>id\<close>,
  \<^verbatim>\<open>date_joined\<close>, \<^verbatim>\<open>last_login\<close>, \<^verbatim>\<open>two_factor_enabled\<close>, \<^verbatim>\<open>backup_codes\<close>,
  \<^verbatim>\<open>created_by\<close>, \<^verbatim>\<open>permissions\<close>. This holds for every user model the remaining
  fields are built from and for every field-level validation.
\<close>

theorem protected_fields_not_accepted:
  assumes "to_internal_value run UserSerializer_validate_method (get_fields build_field) data
             = Inr attrs"
      and "UserSerializer_validate attrs = Inr validated_data"
  shows "dom validated_data
           \<inter> {''id'', ''date_joined'', ''last_login'', ''two_factor_enabled'', ''backup_codes'',
               ''created_by'', ''permissions''} = {}"
proof -
  from assms(2) have same: "validated_data = attrs"
    by (rule UserSerializer_validate_Inr)
  have "dom attrs \<inter> protected_fields = {}"
  proof (rule ccontr)
    assume "dom attrs \<inter> protected_fields \<noteq> {}"
    then obtain k where k: "k \<in> dom attrs" "k \<in> protected_fields"
      by auto
    from to_internal_value_dom [OF assms(1)] k(1) obtain f where
      f: "f \<in> set (get_fields build_field)" "\<not> read_only f" "field_name f = k"
      by auto
    from get_fields_protected [of f build_field] f k(2) show False
      by simp
  qed
  with same show ?thesis
    by (simp add: protected_fields_def)
qed

theorem protected_fields_not_accepted_witness:
  "to_internal_value example_run UserSerializer_validate_method (get_fields example_build_field)
     [''id'' \<mapsto> Str ''7'', ''username'' \<mapsto> Str ''bob'', ''password'' \<mapsto> Str ''pw'',
      ''password2'' \<mapsto> Str ''pw'', ''created_by'' \<mapsto> Str ''9'', ''permissions'' \<mapsto> Str ''*'']
     = Inr [''username'' \<mapsto> Str ''bob'', ''password'' \<mapsto> Str ''pw'', ''password2'' \<mapsto> Str ''pw'']
   \<and> UserSerializer_validate
       [''username'' \<mapsto> Str ''bob'', ''password'' \<mapsto> Str ''pw'', ''password2'' \<mapsto> Str ''pw'']
     = Inr [''username'' \<mapsto> Str ''bob'', ''password'' \<mapsto> Str ''pw'', ''password2'' \<mapsto> Str ''pw'']
   \<and> dom [''username'' \<mapsto> Str ''bob'', ''password'' \<mapsto> Str ''pw'', ''password2'' \<mapsto> Str ''pw'']
       \<inter> {''id'', ''date_joined'', ''last_login'', ''two_factor_enabled'', ''backup_codes'',
           ''created_by'', ''permissions''} = {}"
proof -
  have h1: "to_internal_value example_run UserSerializer_validate_method
              (get_fields example_build_field)
              [''id'' \<mapsto> Str ''7'', ''username'' \<mapsto> Str ''bob'', ''password'' \<mapsto> Str ''pw'',
               ''password2'' \<mapsto> Str ''pw'', ''created_by'' \<mapsto> Str ''9'',
               ''permissions'' \<mapsto> Str ''*'']
            = Inr [''username'' \<mapsto> Str ''bob'', ''password'' \<mapsto> Str ''pw'',
                   ''password2'' \<mapsto> Str ''pw'']"
    by (simp add: to_internal_value_def get_fields_def Meta_fields_def Meta_read_only_fields_def
          UserSerializer_declared_fields_def UserSerializer_validate_method_def
          example_run_def example_build_field_def)
  have h2: "UserSerializer_validate
              [''username'' \<mapsto> Str ''bob'', ''password'' \<mapsto> Str ''pw'', ''password2'' \<mapsto> Str ''pw'']
            = Inr [''username'' \<mapsto> Str ''bob'', ''password'' \<mapsto> Str ''pw'',
                   ''password2'' \<mapsto> Str ''pw'']"
    by (simp add: UserSerializer_validate_def)
  from protected_fields_not_accepted [OF h1 h2] h1 h2 show ?thesis
    by blast
qed

text \<open>
  C10. \<^verbatim>\<open>ChangePasswordSerializer.validate\<close> indexes \<^verbatim>\<open>new_password\<close> and
  \<^verbatim>\<open>confirm_password\<close> without a presence check. When both keys are present, no lookup
  fails: the result is the mismatch error or the attributes unchanged. When a key is
  missing, the lookup raises \<^verbatim>\<open>KeyError\<close> for the first missing key, and the result is
  not a \<^verbatim>\<open>ValidationError\<close>.
\<close>

theorem change_password_lookups:
  "(''new_password'' \<in> dom attrs \<and> ''confirm_password'' \<in> dom attrs \<longrightarrow>
      (ChangePasswordSerializer_validate attrs =
         Inl (ValidationError
               (Fields [(''confirm_password'', Message ''New password fields didn't match.'')]))
       \<or> ChangePasswordSerializer_validate attrs = Inr attrs)
      \<and> (\<forall>k. ChangePasswordSerializer_validate attrs \<noteq> Inl (KeyError k)))
   \<and> (''new_password'' \<notin> dom attrs \<longrightarrow>
        ChangePasswordSerializer_validate attrs = Inl (KeyError ''new_password''))
   \<and> (''new_password'' \<in> dom attrs \<and> ''confirm_password'' \<notin> dom attrs \<longrightarrow>
        ChangePasswordSerializer_validate attrs = Inl (KeyError ''confirm_password''))
   \<and> (''new_password'' \<notin> dom attrs \<or> ''confirm_password'' \<notin> dom attrs \<longrightarrow>
        (\<forall>d. ChangePasswordSerializer_validate attrs \<noteq> Inl (ValidationError d)))"
  by (auto simp: ChangePasswordSerializer_validate_def split: option.splits)

theorem change_password_lookups_witness:
  "ChangePasswordSerializer_validate [''new_password'' \<mapsto> Str ''a'', ''confirm_password'' \<mapsto> Str ''a'']
     = Inr [''new_password'' \<mapsto> Str ''a'', ''confirm_password'' \<mapsto> Str ''a'']
   \<and> ChangePasswordSerializer_validate [''confirm_password'' \<mapsto> Str ''a'']
     = Inl (KeyError ''new_password'')
   \<and> ChangePasswordSerializer_validate [''new_password'' \<mapsto> Str ''a'']
     = Inl (KeyError ''confirm_password'')"
proof -
  note t1 = change_password_lookups
              [of "[''new_password'' \<mapsto> Str ''a'', ''confirm_password'' \<mapsto> Str ''a'']"]
  note t2 = change_password_lookups [of "[''confirm_password'' \<mapsto> Str ''a'']"]
  note t3 = change_password_lookups [of "[''new_password'' \<mapsto> Str ''a'']"]
  have m: "ChangePasswordSerializer_validate
             [''new_password'' \<mapsto> Str ''a'', ''confirm_password'' \<mapsto> Str ''a'']
           \<noteq> Inl (ValidationError
                  (Fields [(''confirm_password'', Message ''New password fields didn't match.'')]))"
    by (simp add: ChangePasswordSerializer_validate_def)
  from t1 m have c1: "ChangePasswordSerializer_validate
                        [''new_password'' \<mapsto> Str ''a'', ''confirm_password'' \<mapsto> Str ''a'']
                      = Inr [''new_password'' \<mapsto> Str ''a'', ''confirm_password'' \<mapsto> Str ''a'']"
    by simp
  from t2 have c2: "ChangePasswordSerializer_validate [''confirm_password'' \<mapsto> Str ''a'']
                      = Inl (KeyError ''new_password'')"
    by simp
  from t3 have c3: "ChangePasswordSerializer_validate [''new_password'' \<mapsto> Str ''a'']
                      = Inl (KeyError ''confirm_password'')"
    by simp
  from c1 c2 c3 show ?thesis by blast
qed

end
